theory Spec2Isabelle
  imports Complex_Main "HOL-Library.Word"
begin

section \<open>The device bridge of httpgd (src/Httpgd.cpp)\<close>

text \<open>
  The file under study is the glue between the host graphics engine (R) and the
  httpgd device object. The device class (HttpgdDev.h), the draw-call classes
  (DrawData.h) and the font helpers (svglite-utils header) are only used here, never
  defined; they enter the model as parameters (records of functions), so every theorem
  holds for each implementation of them.
\<close>

subsection \<open>Machine types and host values\<close>

text \<open>
  C++ \<open>int\<close> is a 32-bit word read in two's complement (\<open>sint\<close>); negation and
  addition wrap around. \<open>double\<close> is modelled by the reals: the only arithmetic the
  theorems below depend on is multiplication of zero by a finite constant, which is
  exact in floating point as well.
\<close>

type_synonym cint = "32 word"
type_synonym double = real

text \<open>Values of the host language (strings, numbers, named lists).\<close>

datatype rvalue =
    RString string
  | RNum int
  | RBool bool
  | RList "(string \<times> rvalue) list"

text \<open>
  Every way a call can leave other than by returning: \<open>Rcpp::stop\<close> with its message,
  an error condition raised by the host engine, and the use of a pointer or range the
  C++ standard gives no meaning to.
\<close>

datatype error =
    Rcpp_stop string
  | GE_version_mismatch
  | No_device_available
  | Invalid_colour
  | Undefined_behaviour

text \<open>The fields of the graphics context (\<open>pGEcontext\<close>) that the callbacks read.\<close>

record gcontext =
  fontfamily :: string
  fontface :: cint
  ps :: double
  cex :: double

subsection \<open>Draw calls\<close>

text \<open>
  Modelled from the spec: the aggregate \<open>dc::TextInfo\<close> of DrawData.h (not part of the
  sources), in the order of its initialiser in \<open>httpgd_text\<close>: resolved font name,
  font size, bold and italic flags, measured string width.
\<close>

record TextInfo =
  font_family :: string
  fontsize :: double
  bold :: bool
  italic :: bool
  txtwidth :: double

text \<open>
  The draw-call objects built by the two callbacks studied here, with the arguments of
  their constructors in the order of the call.
\<close>

datatype draw_call =
    Text gcontext double double string double double TextInfo
  | Path gcontext "double list" "double list" cint "cint list" bool

subsection \<open>Collaborators taken as parameters\<close>

text \<open>
  The font helpers of the svglite-utils header. An out-parameter is an extra argument (the
  value behind the pointer before the call) and an extra component of the result (the
  value after it); the first component of the result of \<open>glyph_metrics\<close> and
  \<open>string_width\<close> is the error code.
\<close>

record svglite_utils =
  get_font_file :: "string \<Rightarrow> cint \<Rightarrow> rvalue \<Rightarrow> string \<times> cint"
  glyph_metrics :: "cint \<Rightarrow> string \<Rightarrow> cint \<Rightarrow> double \<Rightarrow> double
     \<Rightarrow> double \<times> double \<times> double \<Rightarrow> cint \<times> double \<times> double \<times> double"
  string_width :: "string \<Rightarrow> string \<Rightarrow> cint \<Rightarrow> double \<Rightarrow> double \<Rightarrow> cint
     \<Rightarrow> double \<Rightarrow> cint \<times> double"
  fontname :: "string \<Rightarrow> cint \<Rightarrow> rvalue \<Rightarrow> rvalue \<Rightarrow> string"
  is_bold :: "cint \<Rightarrow> bool"
  is_italic :: "cint \<Rightarrow> bool"

text \<open>
  The two aggregates handed to \<open>makehttpgdDevice\<close>, with the fields in the order
  of their initialisers in \<open>httpgd_\<close>.
\<close>

record HttpgdDevStartParams =
  bg :: cint
  width :: double
  height :: double
  pointsize :: double
  aliases :: rvalue

record HttpgdServerConfig =
  host :: string
  port :: cint
  livehtml :: string
  cors :: bool
  use_token :: bool
  token :: string
  recording :: bool

text \<open>
  The members of class \<open>HttpgdDev\<close> that Httpgd.cpp uses, over an arbitrary type
  \<open>'dev\<close> of device objects. A member that changes the object returns the new one.
\<close>

record 'dev HttpgdDev_class =
  new_HttpgdDev :: "HttpgdServerConfig \<Rightarrow> HttpgdDevStartParams \<Rightarrow> 'dev"
  user_aliases :: "'dev \<Rightarrow> rvalue"
  system_aliases :: "'dev \<Rightarrow> rvalue"
  put :: "'dev \<Rightarrow> draw_call \<Rightarrow> 'dev"
  start_server :: "'dev \<Rightarrow> 'dev"
  get_server_config :: "'dev \<Rightarrow> HttpgdServerConfig"
  server_await_port :: "'dev \<Rightarrow> int"
  store_get_page_count :: "'dev \<Rightarrow> int"
  store_get_upid :: "'dev \<Rightarrow> int"
  store_svg :: "'dev \<Rightarrow> cint \<Rightarrow> double \<Rightarrow> double \<Rightarrow> string"
  store_remove :: "'dev \<Rightarrow> cint \<Rightarrow> bool \<times> 'dev"
  store_clear :: "'dev \<Rightarrow> bool \<times> 'dev"

text \<open>
  What the host answers during one call: the package file lookup and the file system
  (\<open>system.file\<close>, \<open>std::ifstream\<close>), the colour parser, the two engine checks that
  open \<open>makehttpgdDevice\<close>, the allocation of the device descriptor, the slot the engine
  gives to a new device, and the liveness probe \<open>check_server_started\<close> (declared
  outside Httpgd.cpp).
\<close>

record host_env =
  system_file :: "string \<Rightarrow> string \<Rightarrow> string \<Rightarrow> string"
  file_content :: "string \<Rightarrow> string option"
  R_GE_str2col :: "string \<Rightarrow> cint option"
  ge_version_ok :: bool
  device_available :: bool
  calloc_ok :: bool
  free_slot :: nat
  check_server_started :: "string \<Rightarrow> cint \<Rightarrow> bool"

subsection \<open>The engine's device table\<close>

text \<open>
  \<open>deviceSpecific\<close> is an untyped pointer: null, the \<open>HttpgdDev\<close> that
  \<open>httpgd_driver_new\<close> stores, or the private data of another kind of device.
\<close>

datatype 'dev device_specific = HttpgdPtr 'dev | ForeignPtr

text \<open>
  The device descriptor with the fields \<open>httpgd_driver_new\<close> fills in (the callback
  pointers are the functions below; \<open>cra\<close> and \<open>ipr\<close> are two-element arrays).
\<close>

record 'dev DevDesc =
  startfill :: cint
  startcol :: cint
  startps :: double
  startlty :: cint
  startfont :: cint
  startgamma :: double
  wantSymbolUTF8 :: bool
  hasTextUTF8 :: bool
  left :: double
  top' :: double
  right :: double
  bottom :: double
  cra :: "double \<times> double"
  xCharOffset :: double
  yCharOffset :: double
  yLineBias :: double
  ipr :: "double \<times> double"
  canClip :: bool
  canHAdj :: cint
  canChangeGamma :: bool
  displayListOn :: bool
  haveTransparency :: cint
  haveTransparentBg :: cint
  deviceSpecific :: "'dev device_specific option"

record 'dev GEDevDesc =
  dev :: "'dev DevDesc option"

text \<open>The table \<open>R_Devices\<close>: slot number to engine descriptor, \<open>None\<close> for null.\<close>

type_synonym 'dev devices = "nat \<Rightarrow> 'dev GEDevDesc option"

subsection \<open>Package files\<close>

definition get_wwwpath :: "host_env \<Rightarrow> string \<Rightarrow> string" where
  "get_wwwpath E filename = system_file E ''www'' filename ''httpgd''"

text \<open>Reading a whole file through a stream: a file that cannot be opened reads as empty.\<close>

definition ifstream_read :: "host_env \<Rightarrow> string \<Rightarrow> string" where
  "ifstream_read E path = (case file_content E path of None \<Rightarrow> [] | Some s \<Rightarrow> s)"

definition read_txt :: "host_env \<Rightarrow> string \<Rightarrow> string" where
  "read_txt E filepath = ifstream_read E (get_wwwpath E ''index.html'')"

subsection \<open>Font metrics callbacks\<close>

text \<open>Lines 56 to 59: a negative character code is negated (in 32-bit arithmetic).\<close>

definition char_code :: "cint \<Rightarrow> cint" where
  "char_code c = (if c <s 0 then - c else c)"

text \<open>Lines 61 to 63: the font file lookup and the glyph lookup of \<open>httpgd_metric_info\<close>.\<close>

definition metric_lookup ::
  "svglite_utils \<Rightarrow> 'dev HttpgdDev_class \<Rightarrow> cint \<Rightarrow> gcontext
    \<Rightarrow> double \<times> double \<times> double \<Rightarrow> 'dev \<Rightarrow> cint \<times> double \<times> double \<times> double" where
  "metric_lookup F H c gc out d =
     (let font = get_font_file F (fontfamily gc) (fontface gc) (user_aliases H d)
      in glyph_metrics F (char_code c) (fst font) (snd font) (ps gc * cex gc) 10000 out)"

text \<open>
  \<open>out\<close> holds what is behind the pointers \<open>ascent\<close>, \<open>descent\<close> and \<open>width\<close> on
  entry; the result is what is behind them on return.
\<close>

definition httpgd_metric_info ::
  "svglite_utils \<Rightarrow> 'dev HttpgdDev_class \<Rightarrow> cint \<Rightarrow> gcontext
    \<Rightarrow> double \<times> double \<times> double \<Rightarrow> 'dev \<Rightarrow> double \<times> double \<times> double" where
  "httpgd_metric_info F H c gc out d =
     (case metric_lookup F H c gc out d of (err, ascent, descent, wd) \<Rightarrow>
        (case (if err \<noteq> 0 then (0, 0, 0) else (ascent, descent, wd)) of
           (ascent, descent, wd) \<Rightarrow>
             (let md = 72 / 10000 in (ascent * md, descent * md, wd * md))))"

text \<open>Lines 90 to 94: the font file lookup and the measurement of \<open>httpgd_strwidth\<close>.\<close>

definition strwidth_lookup ::
  "svglite_utils \<Rightarrow> 'dev HttpgdDev_class \<Rightarrow> string \<Rightarrow> gcontext \<Rightarrow> 'dev \<Rightarrow> cint \<times> double" where
  "strwidth_lookup F H str gc d =
     (let font = get_font_file F (fontfamily gc) (fontface gc) (user_aliases H d)
      in string_width F str (fst font) (snd font) (ps gc * cex gc) 10000 1 0)"

definition httpgd_strwidth ::
  "svglite_utils \<Rightarrow> 'dev HttpgdDev_class \<Rightarrow> string \<Rightarrow> gcontext \<Rightarrow> 'dev \<Rightarrow> double" where
  "httpgd_strwidth F H str gc d =
     (case strwidth_lookup F H str gc d of (err, wd) \<Rightarrow>
        (let wd = (if err \<noteq> 0 then 0 else wd) in wd * 72 / 10000))"

subsection \<open>Draw callbacks\<close>

definition httpgd_text ::
  "svglite_utils \<Rightarrow> 'dev HttpgdDev_class \<Rightarrow> double \<Rightarrow> double \<Rightarrow> string \<Rightarrow> double \<Rightarrow> double
    \<Rightarrow> gcontext \<Rightarrow> 'dev \<Rightarrow> 'dev" where
  "httpgd_text F H x y str rot hadj gc d =
     put H d (Text gc x y str rot hadj
       \<lparr> font_family = fontname F (fontfamily gc) (fontface gc)
                         (system_aliases H d) (user_aliases H d),
         fontsize = cex gc * ps gc,
         bold = is_bold F (fontface gc),
         italic = is_italic F (fontface gc),
         txtwidth = httpgd_strwidth F H str gc d \<rparr>)"

text \<open>
  \<open>std::vector<T>(p, p + n)\<close> over a buffer whose extent is the list \<open>buf\<close>: the first
  \<open>n\<close> elements in order. A negative \<open>n\<close> or one beyond the buffer has no defined
  meaning.
\<close>

definition vector_range :: "'a list \<Rightarrow> cint \<Rightarrow> 'a list option" where
  "vector_range buf n =
     (if 0 \<le> sint n \<and> nat (sint n) \<le> length buf then Some (take (nat (sint n)) buf)
      else None)"

text \<open>The loop of lines 214 to 217, with its counter \<open>i\<close> and accumulator \<open>npoints\<close>.\<close>

function path_npoints :: "cint list \<Rightarrow> cint \<Rightarrow> cint \<Rightarrow> cint \<Rightarrow> cint" where
  "path_npoints vnper npoly i npoints =
     (if i <s npoly then path_npoints vnper npoly (i + 1) (npoints + vnper ! nat (sint i))
      else npoints)"
  by pat_completeness auto

termination path_npoints
proof (relation "measure (\<lambda>(vnper, npoly, i, npoints). nat (sint npoly - sint i))")
  show "wf (measure (\<lambda>(vnper, npoly, i, npoints). nat (sint npoly - sint i)))"
    by simp
next
  fix vnper :: "cint list" and npoly i npoints :: cint
  assume a: "i <s npoly"
  then have lt: "sint i < sint npoly" by (simp add: word_sless_alt)
  have "sint npoly < 2 ^ 31" using sint_lt [of npoly] by simp
  with lt have up: "sint i + 1 < 2 ^ 31" by simp
  have lo: "- (2 ^ 31) \<le> sint i" using sint_ge [of i] by simp
  have "sint (i + 1) = signed_take_bit 31 (sint i + 1)"
    by (simp add: sint_word_ariths)
  also have "\<dots> = sint i + 1"
    using up lo by (intro signed_take_bit_int_eq_self) auto
  finally have "sint (i + 1) = sint i + 1" .
  with lt show "((vnper, npoly, i + 1, npoints + vnper ! nat (sint i)),
      (vnper, npoly, i, npoints))
    \<in> measure (\<lambda>(vnper, npoly, i, npoints). nat (sint npoly - sint i))"
    by simp
qed

declare path_npoints.simps [simp del]

definition httpgd_path ::
  "'dev HttpgdDev_class \<Rightarrow> double list \<Rightarrow> double list \<Rightarrow> cint \<Rightarrow> cint list \<Rightarrow> bool
    \<Rightarrow> gcontext \<Rightarrow> 'dev \<Rightarrow> error + 'dev" where
  "httpgd_path H x y npoly nper winding gc d =
     (case vector_range nper npoly of
        None \<Rightarrow> Inl Undefined_behaviour
      | Some vnper \<Rightarrow>
          (let npoints = path_npoints vnper npoly 0 0 in
           case vector_range x npoints of
             None \<Rightarrow> Inl Undefined_behaviour
           | Some vx \<Rightarrow>
               (case vector_range y npoints of
                  None \<Rightarrow> Inl Undefined_behaviour
                | Some vy \<Rightarrow> Inr (put H d (Path gc vx vy npoly vnper winding)))))"

subsection \<open>Starting a device\<close>

text \<open>\<open>R_RGB(r, g, b)\<close>: an opaque colour, packed as the engine does.\<close>

definition R_RGB :: "cint \<Rightarrow> cint \<Rightarrow> cint \<Rightarrow> cint" where
  "R_RGB r g b = or r (or (push_bit 8 g) (or (push_bit 16 b) 0xFF000000))"

text \<open>
  \<open>None\<close> is the null pointer returned when \<open>calloc\<close> fails. The back pointer that
  the constructor of \<open>HttpgdDev\<close> receives is left out.
\<close>

definition httpgd_driver_new ::
  "'dev HttpgdDev_class \<Rightarrow> host_env \<Rightarrow> HttpgdDevStartParams \<Rightarrow> HttpgdServerConfig
    \<Rightarrow> 'dev DevDesc option" where
  "httpgd_driver_new H E t_params t_config =
     (if \<not> calloc_ok E then None
      else Some
        \<lparr> startfill = bg t_params,
          startcol = R_RGB 0 0 0,
          startps = pointsize t_params,
          startlty = 0,
          startfont = 1,
          startgamma = 1,
          wantSymbolUTF8 = True,
          hasTextUTF8 = True,
          left = 0,
          top' = 0,
          right = width t_params,
          bottom = height t_params,
          cra = (0.9 * pointsize t_params, 1.2 * pointsize t_params),
          xCharOffset = 0.4900,
          yCharOffset = 0.3333,
          yLineBias = 0.2,
          ipr = (1 / 72, 1 / 72),
          canClip = True,
          canHAdj = 0,
          canChangeGamma = False,
          displayListOn = True,
          haveTransparency = 2,
          haveTransparentBg = 2,
          deviceSpecific = Some (HttpgdPtr (new_HttpgdDev H t_config t_params)) \<rparr>)"

text \<open>
  \<open>getDev\<close> casts \<open>deviceSpecific\<close> to a device object; \<open>None\<close> stands for a
  pointer that is not one.
\<close>

definition getDev :: "'dev DevDesc \<Rightarrow> 'dev option" where
  "getDev dd = (case deviceSpecific dd of Some (HttpgdPtr d) \<Rightarrow> Some d | _ \<Rightarrow> None)"

text \<open>
  The engine's side of registration: the descriptor is wrapped and stored in the slot
  the engine picks. The display list that \<open>GEinitDisplayList\<close> resets is not part of the
  model.
\<close>

definition GEcreateDevDesc :: "'dev DevDesc \<Rightarrow> 'dev GEDevDesc" where
  "GEcreateDevDesc dd = \<lparr> dev = Some dd \<rparr>"

definition GEaddDevice2 :: "host_env \<Rightarrow> 'dev devices \<Rightarrow> 'dev GEDevDesc \<Rightarrow> 'dev devices" where
  "GEaddDevice2 E tbl gdd = tbl (free_slot E := Some gdd)"

definition GEgetDevice :: "'dev devices \<Rightarrow> cint \<Rightarrow> 'dev GEDevDesc option" where
  "GEgetDevice tbl i = tbl (nat (sint i))"

text \<open>
  The calls \<open>makehttpgdDevice\<close> makes that reach outside the function: the two engine
  checks, the liveness probe, the allocation of a descriptor and the construction of a
  device object (both in \<open>httpgd_driver_new\<close>), the registration with the engine and
  the start of the server.
\<close>

datatype action =
    Check_version
  | Check_device_available
  | Probe_server string cint
  | Alloc_DevDesc
  | Construct_HttpgdDev
  | Create_GEDevDesc
  | Add_device nat
  | Init_display_list
  | Start_server

text \<open>
  The result is the outcome, the device table after the call and the calls made, in
  order. The table holds pointers, so the server started last is the one of the
  registered device.
\<close>

definition makehttpgdDevice ::
  "'dev HttpgdDev_class \<Rightarrow> host_env \<Rightarrow> HttpgdDevStartParams \<Rightarrow> HttpgdServerConfig
    \<Rightarrow> 'dev devices \<Rightarrow> (error + unit) \<times> 'dev devices \<times> action list" where
  "makehttpgdDevice H E t_params t_config tbl =
     (if \<not> ge_version_ok E then (Inl GE_version_mismatch, tbl, [Check_version])
      else if \<not> device_available E
        then (Inl No_device_available, tbl, [Check_version, Check_device_available])
      else if check_server_started E (host t_config) (port t_config)
        then (Inl (Rcpp_stop ''Failed to start httpgd. Server already running at this address!''),
              tbl,
              [Check_version, Check_device_available,
               Probe_server (host t_config) (port t_config)])
      else
        (case httpgd_driver_new H E t_params t_config of
           None \<Rightarrow>
             (Inl (Rcpp_stop ''Failed to start httpgd.''), tbl,
              [Check_version, Check_device_available,
               Probe_server (host t_config) (port t_config), Alloc_DevDesc])
         | Some dd \<Rightarrow>
             (case getDev dd of
                None \<Rightarrow>
                  (Inl Undefined_behaviour, tbl,
                   [Check_version, Check_device_available,
                    Probe_server (host t_config) (port t_config), Alloc_DevDesc,
                    Construct_HttpgdDev])
              | Some d \<Rightarrow>
                  (Inr (),
                   GEaddDevice2 E tbl
                     (GEcreateDevDesc
                        (dd\<lparr>deviceSpecific := Some (HttpgdPtr (start_server H d))\<rparr>)),
                   [Check_version, Check_device_available,
                    Probe_server (host t_config) (port t_config), Alloc_DevDesc,
                    Construct_HttpgdDev, Create_GEDevDesc, Add_device (free_slot E),
                    Init_display_list, Start_server]))))"

text \<open>\<open>httpgd_\<close> returns the outcome; the table is what the engine holds afterwards.\<close>

definition httpgd_' ::
  "'dev HttpgdDev_class \<Rightarrow> host_env \<Rightarrow> string \<Rightarrow> cint \<Rightarrow> string \<Rightarrow> double \<Rightarrow> double \<Rightarrow> double
    \<Rightarrow> rvalue \<Rightarrow> bool \<Rightarrow> bool \<Rightarrow> string \<Rightarrow> 'dev devices \<Rightarrow> (error + bool) \<times> 'dev devices" where
  "httpgd_' H E t_host t_port t_bg t_width t_height t_pointsize t_aliases t_recording t_cors
      t_token tbl =
     (let t_use_token = (length t_token \<noteq> 0) in
      case R_GE_str2col E t_bg of
        None \<Rightarrow> (Inl Invalid_colour, tbl)
      | Some ibg \<Rightarrow>
          (let html = read_txt E (get_wwwpath E ''index.html'') in
           case makehttpgdDevice H E
                  \<lparr> bg = ibg, width = t_width, height = t_height, pointsize = t_pointsize,
                    aliases = t_aliases \<rparr>
                  \<lparr> host = t_host, port = t_port, livehtml = html, cors = t_cors,
                    use_token = t_use_token, token = t_token, recording = t_recording \<rparr>
                  tbl of
             (Inl e, tbl', acts) \<Rightarrow> (Inl e, tbl')
           | (Inr u, tbl', acts) \<Rightarrow> (Inr True, tbl')))"

subsection \<open>In-process operations on a device number\<close>

definition validate_httpgddev :: "'dev devices \<Rightarrow> cint \<Rightarrow> error + 'dev device_specific" where
  "validate_httpgddev tbl devnum =
     (if devnum <s 1 \<or> 64 <s devnum then Inl (Rcpp_stop ''invalid graphical device number'')
      else
        (case GEgetDevice tbl (devnum - 1) of
           None \<Rightarrow> Inl (Rcpp_stop ''invalid device'')
         | Some gdd \<Rightarrow>
             (case dev gdd of
                None \<Rightarrow> Inl (Rcpp_stop ''invalid device'')
              | Some dd \<Rightarrow>
                  (case deviceSpecific dd of
                     None \<Rightarrow> Inl (Rcpp_stop ''invalid device'')
                   | Some p \<Rightarrow> Inr p))))"

text \<open>
  A member called through a pointer that is not a device object has no defined
  behaviour. The members of a device object change it in place: \<open>set_httpgddev\<close> writes
  the changed object back where \<open>validate_httpgddev\<close> found it.
\<close>

definition set_httpgddev :: "'dev devices \<Rightarrow> cint \<Rightarrow> 'dev \<Rightarrow> 'dev devices" where
  "set_httpgddev tbl devnum d =
     (case GEgetDevice tbl (devnum - 1) of
        None \<Rightarrow> tbl
      | Some gdd \<Rightarrow>
          (case dev gdd of
             None \<Rightarrow> tbl
           | Some dd \<Rightarrow>
               tbl (nat (sint (devnum - 1)) :=
                 Some (gdd\<lparr>dev := Some (dd\<lparr>deviceSpecific := Some (HttpgdPtr d)\<rparr>)\<rparr>))))"

definition httpgd_state_' ::
  "'dev HttpgdDev_class \<Rightarrow> 'dev devices \<Rightarrow> cint \<Rightarrow> error + (string \<times> rvalue) list" where
  "httpgd_state_' H tbl devnum =
     (case validate_httpgddev tbl devnum of
        Inl e \<Rightarrow> Inl e
      | Inr ForeignPtr \<Rightarrow> Inl Undefined_behaviour
      | Inr (HttpgdPtr d) \<Rightarrow>
          (let svr_config = get_server_config H d in
           Inr [(''host'', RString (host svr_config)),
                (''port'', RNum (server_await_port H d)),
                (''token'', RString (token svr_config)),
                (''hsize'', RNum (store_get_page_count H d)),
                (''upid'', RNum (store_get_upid H d))]))"

text \<open>
  Modelled from the spec: the static member \<open>HttpgdDev::random_token\<close> (HttpgdDev.h is
  not part of the sources), "a random opaque token of requested length"; \<open>rnd\<close> is the
  source of random characters.
\<close>

definition random_token :: "(nat \<Rightarrow> char) \<Rightarrow> cint \<Rightarrow> string" where
  "random_token rnd len = map rnd [0..<nat (sint len)]"

definition httpgd_random_token_' :: "(nat \<Rightarrow> char) \<Rightarrow> cint \<Rightarrow> error + string" where
  "httpgd_random_token_' rnd len =
     (if len <s 0 then Inl (Rcpp_stop ''Length needs to be 0 or higher.'')
      else Inr (random_token rnd len))"

definition httpgd_svg_' ::
  "'dev HttpgdDev_class \<Rightarrow> 'dev devices \<Rightarrow> cint \<Rightarrow> cint \<Rightarrow> double \<Rightarrow> double \<Rightarrow> error + string" where
  "httpgd_svg_' H tbl devnum page w h =
     (case validate_httpgddev tbl devnum of
        Inl e \<Rightarrow> Inl e
      | Inr ForeignPtr \<Rightarrow> Inl Undefined_behaviour
      | Inr (HttpgdPtr d) \<Rightarrow> Inr (store_svg H d page w h))"

definition httpgd_remove_' ::
  "'dev HttpgdDev_class \<Rightarrow> 'dev devices \<Rightarrow> cint \<Rightarrow> cint \<Rightarrow> (error + bool) \<times> 'dev devices" where
  "httpgd_remove_' H tbl devnum page =
     (case validate_httpgddev tbl devnum of
        Inl e \<Rightarrow> (Inl e, tbl)
      | Inr ForeignPtr \<Rightarrow> (Inl Undefined_behaviour, tbl)
      | Inr (HttpgdPtr d) \<Rightarrow>
          (case store_remove H d page of (b, d') \<Rightarrow> (Inr b, set_httpgddev tbl devnum d')))"

definition httpgd_clear_' ::
  "'dev HttpgdDev_class \<Rightarrow> 'dev devices \<Rightarrow> cint \<Rightarrow> (error + bool) \<times> 'dev devices" where
  "httpgd_clear_' H tbl devnum =
     (case validate_httpgddev tbl devnum of
        Inl e \<Rightarrow> (Inl e, tbl)
      | Inr ForeignPtr \<Rightarrow> (Inl Undefined_behaviour, tbl)
      | Inr (HttpgdPtr d) \<Rightarrow>
          (case store_clear H d of (b, d') \<Rightarrow> (Inr b, set_httpgddev tbl devnum d')))"

text \<open>
  The pointer \<open>validate_httpgddev\<close> finds behind a device number in range: \<open>None\<close>
  when the slot, its descriptor or its \<open>deviceSpecific\<close> is null.
\<close>

definition device_pointer :: "'dev devices \<Rightarrow> cint \<Rightarrow> 'dev device_specific option" where
  "device_pointer tbl devnum =
     (case GEgetDevice tbl (devnum - 1) of
        None \<Rightarrow> None
      | Some gdd \<Rightarrow> (case dev gdd of None \<Rightarrow> None | Some dd \<Rightarrow> deviceSpecific dd))"

text \<open>The names of a returned list, in order (none for a failed call).\<close>

definition field_names :: "error + (string \<times> rvalue) list \<Rightarrow> string list" where
  "field_names r = (case r of Inl e \<Rightarrow> [] | Inr fs \<Rightarrow> map fst fs)"

subsection \<open>A small implementation of the collaborators\<close>

text \<open>
  One concrete device class, font service and graphics context, on which the general
  theorems are instantiated. The font service knows every family but \<open>missing\<close>, for
  which both measurements return error code 1 and leave a value behind the pointers;
  for the others the width of a glyph grows with its code and the width of a string
  with its length.
\<close>

record sample_dev =
  sd_config :: HttpgdServerConfig
  sd_aliases :: rvalue
  sd_started :: bool
  sd_pages :: "draw_call list list"
  sd_upid :: int

definition sample_class :: "sample_dev HttpgdDev_class" where
  "sample_class =
     \<lparr> new_HttpgdDev = (\<lambda>c p. \<lparr> sd_config = c, sd_aliases = aliases p, sd_started = False,
                                  sd_pages = [], sd_upid = 0 \<rparr>),
       user_aliases = sd_aliases,
       system_aliases = (\<lambda>d. RList []),
       put = (\<lambda>d c. case sd_pages d of
                       [] \<Rightarrow> d
                     | pg # pgs \<Rightarrow> d\<lparr>sd_pages := (pg @ [c]) # pgs, sd_upid := sd_upid d + 1\<rparr>),
       start_server = (\<lambda>d. d\<lparr>sd_started := True\<rparr>),
       get_server_config = sd_config,
       server_await_port = (\<lambda>d. sint (port (sd_config d))),
       store_get_page_count = (\<lambda>d. int (length (sd_pages d))),
       store_get_upid = sd_upid,
       store_svg = (\<lambda>d page w h. ''<svg></svg>''),
       store_remove = (\<lambda>d page.
          if 0 \<le> sint page \<and> nat (sint page) < length (sd_pages d)
          then (True, d\<lparr>sd_pages := take (nat (sint page)) (sd_pages d)
                                       @ drop (Suc (nat (sint page))) (sd_pages d),
                          sd_upid := sd_upid d + 1\<rparr>)
          else (False, d)),
       store_clear = (\<lambda>d. (True, d\<lparr>sd_pages := [], sd_upid := sd_upid d + 1\<rparr>)) \<rparr>"

definition sample_fonts :: svglite_utils where
  "sample_fonts =
     \<lparr> get_font_file = (\<lambda>family face al. (''/fonts/'' @ family, 0)),
       glyph_metrics = (\<lambda>c file idx size res out.
          if file = ''/fonts/missing'' then (1, out)
          else (0, size * res * 3 / 4, size * res / 4, size * res * real_of_int (sint c) / 100)),
       string_width = (\<lambda>s file idx size res bearing w.
          if file = ''/fonts/missing'' then (1, 42)
          else (0, real (length s) * size * res / 2)),
       fontname = (\<lambda>family face sys usr. if family = [] then ''sans'' else family),
       is_bold = (\<lambda>face. face = 2 \<or> face = 4),
       is_italic = (\<lambda>face. face = 3 \<or> face = 4) \<rparr>"

definition sample_gc :: "string \<Rightarrow> gcontext" where
  "sample_gc family = \<lparr> fontfamily = family, fontface = 2, ps = 12, cex = 1 \<rparr>"

definition sample_config :: HttpgdServerConfig where
  "sample_config =
     \<lparr> host = ''127.0.0.1'', port = 8080, livehtml = ''<html></html>'', cors = False,
       use_token = True, token = ''abc123'', recording = True \<rparr>"

definition sample_device :: sample_dev where
  "sample_device =
     \<lparr> sd_config = sample_config, sd_aliases = RList [], sd_started = True,
       sd_pages = [[]], sd_upid = 3 \<rparr>"


text \<open>
  Start parameters, the host's answers (with a free device slot or not, with a server
  answering at 127.0.0.1:8080 or not), the descriptor of a device of another kind, and
  a device table: slot 0 is the engine's null device, slot 1 an httpgd device started
  by \<open>makehttpgdDevice\<close> that has drawn one page since, slot 2 the other device.
\<close>

definition sample_params :: HttpgdDevStartParams where
  "sample_params =
     \<lparr> bg = 0xFFFFFFFF, width = 720, height = 576, pointsize = 12, aliases = RList [] \<rparr>"

definition sample_env :: "bool \<Rightarrow> bool \<Rightarrow> host_env" where
  "sample_env available running =
     \<lparr> system_file = (\<lambda>dir file pkg. ''/lib/'' @ pkg @ ''/'' @ dir @ ''/'' @ file),
       file_content = (\<lambda>path. if path = ''/lib/httpgd/www/index.html''
                               then Some ''<html></html>'' else None),
       R_GE_str2col = (\<lambda>name. if name = ''white'' then Some 0xFFFFFFFF
                               else if name = ''black'' then Some 0xFF000000 else None),
       ge_version_ok = True,
       device_available = available,
       calloc_ok = True,
       free_slot = 1,
       check_server_started = (\<lambda>h p. running \<and> h = ''127.0.0.1'' \<and> p = 8080) \<rparr>"

definition foreign_DevDesc :: "sample_dev DevDesc" where
  "foreign_DevDesc =
     \<lparr> startfill = 0xFFFFFFFF, startcol = 0xFF000000, startps = 12, startlty = 0,
       startfont = 1, startgamma = 1, wantSymbolUTF8 = False, hasTextUTF8 = False,
       left = 0, top' = 0, right = 504, bottom = 504, cra = (10.8, 14.4),
       xCharOffset = 0.49, yCharOffset = 0.3333, yLineBias = 0.2, ipr = (1 / 72, 1 / 72),
       canClip = True, canHAdj = 2, canChangeGamma = False, displayListOn = False,
       haveTransparency = 2, haveTransparentBg = 2, deviceSpecific = Some ForeignPtr \<rparr>"

definition empty_table :: "sample_dev devices" where
  "empty_table = (\<lambda>slot. if slot = 0 then Some \<lparr> dev = None \<rparr> else None)"

definition sample_table :: "sample_dev devices" where
  "sample_table =
     (set_httpgddev
        (fst (snd (makehttpgdDevice sample_class (sample_env True False) sample_params
                     sample_config empty_table)))
        2 sample_device)
     (2 := Some \<lparr> dev = Some foreign_DevDesc \<rparr>)"


section \<open>Properties\<close>

subsection \<open>Reading the client page\<close>

text \<open>
  C9. \<open>read_txt\<close> never looks at its argument: for every \<open>filepath\<close> it returns the
  contents of the file that \<open>system.file("www", "index.html", package = "httpgd")\<close>
  names (the empty text when that file cannot be opened), so two calls with different
  arguments return the same text.
\<close>

theorem read_txt_ignores_filepath:
  "read_txt E p = read_txt E q \<and>
   (\<forall>s. file_content E (system_file E ''www'' ''index.html'' ''httpgd'') = Some s \<longrightarrow>
        read_txt E p = s) \<and>
   (file_content E (system_file E ''www'' ''index.html'' ''httpgd'') = None \<longrightarrow>
        read_txt E p = [])"
  by (simp add: read_txt_def ifstream_read_def get_wwwpath_def)

text \<open>
  Asked for a style sheet, for the empty path and for a file that does not exist,
  \<open>read_txt\<close> returns the client page.
\<close>

theorem read_txt_ignores_filepath_witness:
  "file_content (sample_env True False)
     (system_file (sample_env True False) ''www'' ''index.html'' ''httpgd'') =
     Some ''<html></html>'' \<and>
   read_txt (sample_env True False) ''/lib/httpgd/www/style.css'' = ''<html></html>'' \<and>
   read_txt (sample_env True False) [] = ''<html></html>'' \<and>
   read_txt (sample_env True False) ''/no/such/file'' = ''<html></html>'' \<and>
   file_content (sample_env True False) ''/no/such/file'' = None"
proof -
  have f: "file_content (sample_env True False)
     (system_file (sample_env True False) ''www'' ''index.html'' ''httpgd'') =
     Some ''<html></html>''"
    by (simp add: sample_env_def)
  have n: "file_content (sample_env True False) ''/no/such/file'' = None"
    by (simp add: sample_env_def)
  show ?thesis
    using f n
      read_txt_ignores_filepath [of "sample_env True False" "''/lib/httpgd/www/style.css''"]
      read_txt_ignores_filepath [of "sample_env True False" "[]"]
      read_txt_ignores_filepath [of "sample_env True False" "''/no/such/file''"]
    by blast
qed

subsection \<open>Font metrics\<close>

text \<open>
  C1. When the glyph lookup made by \<open>httpgd_metric_info\<close> returns a nonzero error code,
  ascent, descent and width are all 0 on return; when the measurement made by
  \<open>httpgd_strwidth\<close> returns a nonzero error code, the result is 0. Neither call fails.
\<close>

theorem metrics_failure_gives_zero:
  "(fst (metric_lookup F H c gc out d) \<noteq> 0 \<longrightarrow>
      httpgd_metric_info F H c gc out d = (0, 0, 0)) \<and>
   (fst (strwidth_lookup F H str gc d) \<noteq> 0 \<longrightarrow> httpgd_strwidth F H str gc d = 0)"
  by (simp add: httpgd_metric_info_def httpgd_strwidth_def split: prod.splits)


text \<open>With the unknown family both lookups fail and the values left behind are dropped.\<close>

theorem metrics_failure_gives_zero_witness:
  "fst (metric_lookup sample_fonts sample_class 65 (sample_gc ''missing'') (7, 8, 9)
          sample_device) \<noteq> 0 \<and>
   httpgd_metric_info sample_fonts sample_class 65 (sample_gc ''missing'') (7, 8, 9)
     sample_device = (0, 0, 0) \<and>
   fst (strwidth_lookup sample_fonts sample_class ''abc'' (sample_gc ''missing'')
          sample_device) \<noteq> 0 \<and>
   httpgd_strwidth sample_fonts sample_class ''abc'' (sample_gc ''missing'') sample_device = 0"
proof -
  have m: "fst (metric_lookup sample_fonts sample_class 65 (sample_gc ''missing'') (7, 8, 9)
          sample_device) \<noteq> 0"
    by (simp add: metric_lookup_def sample_fonts_def sample_gc_def)
  have s: "fst (strwidth_lookup sample_fonts sample_class ''abc'' (sample_gc ''missing'')
          sample_device) \<noteq> 0"
    by (simp add: strwidth_lookup_def sample_fonts_def sample_gc_def)
  show ?thesis
    using m s metrics_failure_gives_zero [of sample_fonts sample_class 65
        "sample_gc ''missing''" "(7, 8, 9)" sample_device "''abc''"]
    by simp
qed

text \<open>Negation and absolute value on 32-bit codes.\<close>

lemma sint_neg_cint: "sint (c::cint) \<noteq> - (2 ^ 31) \<Longrightarrow> sint (- c) = - sint c"
proof -
  assume a: "sint c \<noteq> - (2 ^ 31)"
  have lt: "sint c < 2 ^ 31" using sint_lt [of c] by simp
  have ge: "- (2 ^ 31) \<le> sint c" using sint_ge [of c] by simp
  have "sint (- c) = signed_take_bit 31 (- sint c)"
    by (simp add: sint_word_ariths)
  also have "\<dots> = - sint c"
    using lt ge a by (intro signed_take_bit_int_eq_self) auto
  finally show ?thesis .
qed

lemma sint_char_code: "sint c \<noteq> - (2 ^ 31) \<Longrightarrow> sint (char_code c) = \<bar>sint c\<bar>"
  by (simp add: char_code_def word_sless_alt sint_neg_cint)

lemma char_code_abs: 
  assumes "\<bar>sint c\<bar> = \<bar>sint c'\<bar>" shows "char_code c = char_code c'"
proof (cases "sint c = - (2 ^ 31) \<or> sint c' = - (2 ^ 31)")
  case True
  have "sint c < 2 ^ 31" "sint c' < 2 ^ 31" using sint_lt [of c] sint_lt [of c'] by simp_all
  with True assms have "sint c = sint c'" by linarith
  then have "c = c'" by (rule signed_word_eqI)
  then show ?thesis by simp
next
  case False
  then have "sint (char_code c) = sint (char_code c')"
    using assms by (simp add: sint_char_code)
  then show ?thesis by (rule signed_word_eqI)
qed

lemma char_code_neg: "char_code (- c) = char_code c"
proof (cases "sint c = - (2 ^ 31)")
  case True
  have "sint (- c) = signed_take_bit 31 (- sint c)" by (simp add: sint_word_ariths)
  also have "\<dots> = sint c" unfolding True by simp
  finally have "- c = c" by (rule signed_word_eqI)
  then show ?thesis by (rule arg_cong)
next
  case False
  then have "\<bar>sint (- c)\<bar> = \<bar>sint c\<bar>" by (simp add: sint_neg_cint)
  then show ?thesis by (rule char_code_abs)
qed

lemma char_code_word_of_int: "char_code c = word_of_int \<bar>sint c\<bar>"
proof (cases "sint c = - (2 ^ 31)")
  case True
  have "sint (- c) = signed_take_bit 31 (- sint c)" by (simp add: sint_word_ariths)
  also have "\<dots> = sint c" unfolding True by simp
  finally have e: "- c = c" by (rule signed_word_eqI)
  have "word_of_int \<bar>sint c\<bar> = - (word_of_int (sint c) :: cint)"
    unfolding True by simp
  also have "\<dots> = - c" by simp
  finally have "word_of_int \<bar>sint c\<bar> = c" using e by simp
  moreover have "char_code c = c" using e by (simp add: char_code_def)
  ultimately show ?thesis by simp
next
  case False
  then have "sint (char_code c) = \<bar>sint c\<bar>" by (rule sint_char_code)
  then have "word_of_int (sint (char_code c)) = (word_of_int \<bar>sint c\<bar> :: cint)" by simp
  then show ?thesis by simp
qed

text \<open>
  C8. The single-character metrics depend on the character code only through its
  absolute value. The glyph looked up is the one with code \<open>\<bar>c\<bar>\<close> (as a 32-bit value),
  in the font file found for the family and face, at size \<open>ps * cex\<close> and resolution
  1e4, and the results are what that lookup returns, scaled by 72/1e4 (zeros when it
  fails). So the results for \<open>c\<close> and \<open>- c\<close> are the same (negation taken in 32-bit
  arithmetic), two codes of equal absolute value give the same results, and the code
  handed to the lookup reads as \<open>\<bar>c\<bar>\<close> whenever that is representable (every code but the
  least one).
\<close>

theorem metric_info_abs_code:
  "httpgd_metric_info F H c gc out d =
     (case glyph_metrics F (word_of_int \<bar>sint c\<bar>)
             (fst (get_font_file F (fontfamily gc) (fontface gc) (user_aliases H d)))
             (snd (get_font_file F (fontfamily gc) (fontface gc) (user_aliases H d)))
             (ps gc * cex gc) 10000 out of
        (err, ascent, descent, wd) \<Rightarrow>
          if err \<noteq> 0 then (0, 0, 0)
          else (ascent * (72 / 10000), descent * (72 / 10000), wd * (72 / 10000))) \<and>
   httpgd_metric_info F H (- c) gc out d = httpgd_metric_info F H c gc out d \<and>
   (\<bar>sint c\<bar> = \<bar>sint c'\<bar> \<longrightarrow>
      httpgd_metric_info F H c gc out d = httpgd_metric_info F H c' gc out d) \<and>
   (sint c \<noteq> - (2 ^ 31) \<longrightarrow> sint (char_code c) = \<bar>sint c\<bar>)"
proof (intro conjI impI)
  show "httpgd_metric_info F H c gc out d =
     (case glyph_metrics F (word_of_int \<bar>sint c\<bar>)
             (fst (get_font_file F (fontfamily gc) (fontface gc) (user_aliases H d)))
             (snd (get_font_file F (fontfamily gc) (fontface gc) (user_aliases H d)))
             (ps gc * cex gc) 10000 out of
        (err, ascent, descent, wd) \<Rightarrow>
          if err \<noteq> 0 then (0, 0, 0)
          else (ascent * (72 / 10000), descent * (72 / 10000), wd * (72 / 10000)))"
    by (simp add: httpgd_metric_info_def metric_lookup_def Let_def
        flip: char_code_word_of_int split: prod.splits)
  show "httpgd_metric_info F H (- c) gc out d = httpgd_metric_info F H c gc out d"
    by (simp add: httpgd_metric_info_def metric_lookup_def char_code_neg)
  show "httpgd_metric_info F H c gc out d = httpgd_metric_info F H c' gc out d"
    if "\<bar>sint c\<bar> = \<bar>sint c'\<bar>"
    using char_code_abs [OF that]
    by (simp add: httpgd_metric_info_def metric_lookup_def)
  show "sint (char_code c) = \<bar>sint c\<bar>" if "sint c \<noteq> - (2 ^ 31)"
    using that by (rule sint_char_code)
qed

text \<open>
  The letter A as a negated code point (-65): the glyph measured is that of code 65,
  with width 561.6; the width that the sample font service gives for code -65 itself
  is negative.
\<close>

theorem metric_info_abs_code_witness:
  "httpgd_metric_info sample_fonts sample_class (- 65) (sample_gc ''sans'') (0, 0, 0)
     sample_device = (648, 216, 5616 / 10) \<and>
   httpgd_metric_info sample_fonts sample_class 65 (sample_gc ''sans'') (0, 0, 0)
     sample_device = (648, 216, 5616 / 10) \<and>
   \<bar>sint (- 65 :: cint)\<bar> = \<bar>sint (65 :: cint)\<bar> \<and>
   sint (- 65 :: cint) \<noteq> - (2 ^ 31) \<and> sint (char_code (- 65)) = 65 \<and>
   snd (snd (snd (glyph_metrics sample_fonts (- 65) ''/fonts/sans'' 0 12 10000 (0, 0, 0)))) < 0"
proof -
  have a: "\<bar>sint (- 65 :: cint)\<bar> = \<bar>sint (65 :: cint)\<bar>" "\<bar>sint (- 65 :: cint)\<bar> = 65"
    and b: "sint (- 65 :: cint) \<noteq> - (2 ^ 31)"
    by simp_all
  have g: "glyph_metrics sample_fonts 65
      (fst (get_font_file sample_fonts (fontfamily (sample_gc ''sans''))
              (fontface (sample_gc ''sans'')) (user_aliases sample_class sample_device)))
      (snd (get_font_file sample_fonts (fontfamily (sample_gc ''sans''))
              (fontface (sample_gc ''sans'')) (user_aliases sample_class sample_device)))
      (ps (sample_gc ''sans'') * cex (sample_gc ''sans'')) 10000 (0, 0, 0) =
      (0, 90000, 30000, 78000)"
    by (simp add: sample_fonts_def sample_gc_def)
  have n: "snd (snd (snd (glyph_metrics sample_fonts (- 65) ''/fonts/sans'' 0 12 10000
      (0, 0, 0)))) < 0"
    by (simp add: sample_fonts_def)
  note T = metric_info_abs_code [of sample_fonts sample_class "- 65" "sample_gc ''sans''"
      "(0, 0, 0)" sample_device 65]
  have m: "httpgd_metric_info sample_fonts sample_class (- 65) (sample_gc ''sans'') (0, 0, 0)
     sample_device = (648, 216, 5616 / 10)"
    using T [THEN conjunct1] by (simp add: a g)
  have e: "httpgd_metric_info sample_fonts sample_class (- 65) (sample_gc ''sans'') (0, 0, 0)
      sample_device =
    httpgd_metric_info sample_fonts sample_class 65 (sample_gc ''sans'') (0, 0, 0)
      sample_device"
    using T a(1) by blast
  have c: "sint (char_code (- 65)) = 65"
    using T a(2) b by simp
  show ?thesis using m e a(1) b c n by simp
qed

subsection \<open>Text\<close>

text \<open>
  C2. \<open>httpgd_text\<close> always hands the device a \<open>Text\<close> draw call (it has no failing
  branch) whose \<open>TextInfo\<close> holds the resolved font name, the font size \<open>cex * ps\<close>,
  the bold and italic flags of the font face, and the width measured when the call is
  made: what \<open>string_width\<close> returns for the string in the font file found for the
  family and face, at size \<open>ps * cex\<close> and resolution 1e4, scaled by 72/1e4; when
  that measurement returns a nonzero error code the recorded width is 0.
\<close>

theorem text_records_metrics:
  "\<exists>ti. httpgd_text F H x y str rot hadj gc d = put H d (Text gc x y str rot hadj ti) \<and>
     font_family ti =
       fontname F (fontfamily gc) (fontface gc) (system_aliases H d) (user_aliases H d) \<and>
     fontsize ti = cex gc * ps gc \<and>
     bold ti = is_bold F (fontface gc) \<and>
     italic ti = is_italic F (fontface gc) \<and>
     txtwidth ti = httpgd_strwidth F H str gc d \<and>
     (fst (strwidth_lookup F H str gc d) \<noteq> 0 \<longrightarrow> txtwidth ti = 0) \<and>
     (\<forall>err wd.
        string_width F str
          (fst (get_font_file F (fontfamily gc) (fontface gc) (user_aliases H d)))
          (snd (get_font_file F (fontfamily gc) (fontface gc) (user_aliases H d)))
          (ps gc * cex gc) 10000 1 0 = (err, wd) \<longrightarrow>
        txtwidth ti = (if err \<noteq> 0 then 0 else wd * 72 / 10000))"
proof (cases "strwidth_lookup F H str gc d")
  case (Pair err wd)
  let ?ti = "\<lparr> font_family = fontname F (fontfamily gc) (fontface gc)
                         (system_aliases H d) (user_aliases H d),
         fontsize = cex gc * ps gc,
         bold = is_bold F (fontface gc),
         italic = is_italic F (fontface gc),
         txtwidth = httpgd_strwidth F H str gc d \<rparr>"
  have "httpgd_text F H x y str rot hadj gc d = put H d (Text gc x y str rot hadj ?ti)"
    by (simp add: httpgd_text_def)
  moreover have "fst (strwidth_lookup F H str gc d) \<noteq> 0 \<longrightarrow> txtwidth ?ti = 0"
    by (simp add: httpgd_strwidth_def Pair)
  moreover have "\<forall>err wd.
        string_width F str
          (fst (get_font_file F (fontfamily gc) (fontface gc) (user_aliases H d)))
          (snd (get_font_file F (fontfamily gc) (fontface gc) (user_aliases H d)))
          (ps gc * cex gc) 10000 1 0 = (err, wd) \<longrightarrow>
        txtwidth ?ti = (if err \<noteq> 0 then 0 else wd * 72 / 10000)"
    by (simp add: httpgd_strwidth_def strwidth_lookup_def Let_def)
  ultimately show ?thesis
    by (intro exI [of _ ?ti]) simp
qed

text \<open>
  The text \<open>abc\<close> at 12 points: in a known family the recorded width is 1296 (the
  measured 180000 scaled by 72/1e4); in the unknown family the text is still recorded,
  with width 0 and not the 42 that the failed measurement left behind.
\<close>

theorem text_records_metrics_witness:
  "(\<exists>ti. httpgd_text sample_fonts sample_class 10 20 ''abc'' 0 0 (sample_gc ''sans'')
       sample_device =
     put sample_class sample_device (Text (sample_gc ''sans'') 10 20 ''abc'' 0 0 ti) \<and>
     font_family ti = ''sans'' \<and> fontsize ti = 12 \<and> bold ti \<and> \<not> italic ti \<and>
     txtwidth ti = 1296) \<and>
   string_width sample_fonts ''abc'' ''/fonts/sans'' 0 12 10000 1 0 = (0, 180000) \<and>
   (\<exists>ti. httpgd_text sample_fonts sample_class 10 20 ''abc'' 0 0 (sample_gc ''missing'')
       sample_device =
     put sample_class sample_device (Text (sample_gc ''missing'') 10 20 ''abc'' 0 0 ti) \<and>
     font_family ti = ''missing'' \<and> fontsize ti = 12 \<and> bold ti \<and> \<not> italic ti \<and>
     txtwidth ti = 0) \<and>
   fst (strwidth_lookup sample_fonts sample_class ''abc'' (sample_gc ''missing'')
          sample_device) \<noteq> 0 \<and>
   string_width sample_fonts ''abc'' ''/fonts/missing'' 0 12 10000 1 0 = (1, 42)"
proof -
  have s: "fst (strwidth_lookup sample_fonts sample_class ''abc'' (sample_gc ''missing'')
          sample_device) \<noteq> 0"
    by (simp add: strwidth_lookup_def sample_fonts_def sample_gc_def)
  have f: "fontname sample_fonts (fontfamily (sample_gc fam))
        (fontface (sample_gc fam)) (system_aliases sample_class sample_device)
        (user_aliases sample_class sample_device) = (if fam = [] then ''sans'' else fam)"
    for fam
    by (simp add: sample_fonts_def sample_gc_def)
  have g: "cex (sample_gc fam) * ps (sample_gc fam) = 12"
    "is_bold sample_fonts (fontface (sample_gc fam))"
    "\<not> is_italic sample_fonts (fontface (sample_gc fam))" for fam
    by (simp_all add: sample_fonts_def sample_gc_def)
  have w: "string_width sample_fonts ''abc''
      (fst (get_font_file sample_fonts (fontfamily (sample_gc ''sans''))
              (fontface (sample_gc ''sans'')) (user_aliases sample_class sample_device)))
      (snd (get_font_file sample_fonts (fontfamily (sample_gc ''sans''))
              (fontface (sample_gc ''sans'')) (user_aliases sample_class sample_device)))
      (ps (sample_gc ''sans'') * cex (sample_gc ''sans'')) 10000 1 0 = (0, 180000)"
    by (simp add: sample_fonts_def sample_gc_def)
  have v: "string_width sample_fonts ''abc'' ''/fonts/sans'' 0 12 10000 1 0 = (0, 180000)"
    "string_width sample_fonts ''abc'' ''/fonts/missing'' 0 12 10000 1 0 = (1, 42)"
    by (simp_all add: sample_fonts_def)
  from text_records_metrics [of sample_fonts sample_class 10 20 "''abc''" 0 0
      "sample_gc ''sans''" sample_device]
  obtain ti where t: "httpgd_text sample_fonts sample_class 10 20 ''abc'' 0 0
        (sample_gc ''sans'') sample_device =
      put sample_class sample_device (Text (sample_gc ''sans'') 10 20 ''abc'' 0 0 ti)"
      "font_family ti = ''sans''" "fontsize ti = 12" "bold ti" "\<not> italic ti"
    and tw: "\<forall>err wd. string_width sample_fonts ''abc''
      (fst (get_font_file sample_fonts (fontfamily (sample_gc ''sans''))
              (fontface (sample_gc ''sans'')) (user_aliases sample_class sample_device)))
      (snd (get_font_file sample_fonts (fontfamily (sample_gc ''sans''))
              (fontface (sample_gc ''sans'')) (user_aliases sample_class sample_device)))
      (ps (sample_gc ''sans'') * cex (sample_gc ''sans'')) 10000 1 0 = (err, wd) \<longrightarrow>
        txtwidth ti = (if err \<noteq> 0 then 0 else wd * 72 / 10000)"
    using f [of "''sans''"] g [of "''sans''"] by auto
  from tw w have "txtwidth ti = 1296" by simp
  with t have ok: "\<exists>ti. httpgd_text sample_fonts sample_class 10 20 ''abc'' 0 0
        (sample_gc ''sans'') sample_device =
      put sample_class sample_device (Text (sample_gc ''sans'') 10 20 ''abc'' 0 0 ti) \<and>
     font_family ti = ''sans'' \<and> fontsize ti = 12 \<and> bold ti \<and> \<not> italic ti \<and>
     txtwidth ti = 1296"
    by blast
  from text_records_metrics [of sample_fonts sample_class 10 20 "''abc''" 0 0
      "sample_gc ''missing''" sample_device]
  obtain tj where "httpgd_text sample_fonts sample_class 10 20 ''abc'' 0 0
        (sample_gc ''missing'') sample_device =
      put sample_class sample_device (Text (sample_gc ''missing'') 10 20 ''abc'' 0 0 tj)"
    and "font_family tj = ''missing''" and "fontsize tj = 12" and "bold tj" and "\<not> italic tj"
    and "txtwidth tj = 0"
    using s f [of "''missing''"] g [of "''missing''"] by auto
  then have bad: "\<exists>ti. httpgd_text sample_fonts sample_class 10 20 ''abc'' 0 0
        (sample_gc ''missing'') sample_device =
      put sample_class sample_device (Text (sample_gc ''missing'') 10 20 ''abc'' 0 0 ti) \<and>
     font_family ti = ''missing'' \<and> fontsize ti = 12 \<and> bold ti \<and> \<not> italic ti \<and>
     txtwidth ti = 0"
    by blast
  show ?thesis using ok bad s v by blast
qed

subsection \<open>Paths\<close>

text \<open>The loop counter does not overflow while it is below the bound.\<close>

lemma sint_succ_below: "(i::cint) <s n \<Longrightarrow> sint (i + 1) = sint i + 1"
proof -
  assume a: "i <s n"
  have "sint n < 2 ^ 31" using sint_lt [of n] by simp
  with a have lt: "sint i + 1 < 2 ^ 31" by (simp add: word_sless_alt)
  have ge: "- (2 ^ 31) \<le> sint i" using sint_ge [of i] by simp
  have "sint (i + 1) = signed_take_bit 31 (sint i + 1)"
    by (simp add: sint_word_ariths)
  also have "\<dots> = sint i + 1"
    using lt ge by (intro signed_take_bit_int_eq_self) auto
  finally show ?thesis .
qed

text \<open>The loop adds up the counts (in 32-bit arithmetic), from index \<open>i\<close> on.\<close>

lemma sum_list_cint: "(sum_list ws :: cint) = word_of_int (sum_list (map sint ws))"
  by (induction ws) simp_all

lemma path_npoints_drop:
  "0 \<le> sint i \<Longrightarrow> sint i \<le> sint npoly \<Longrightarrow> nat (sint npoly) = length vnper \<Longrightarrow>
   path_npoints vnper npoly i acc = acc + sum_list (drop (nat (sint i)) vnper)"
proof (induction vnper npoly i acc rule: path_npoints.induct)
  case (1 vnper npoly i npoints)
  show ?case
  proof (cases "i <s npoly")
    case True
    then have s: "sint (i + 1) = sint i + 1" by (rule sint_succ_below)
    from True have lt: "sint i < sint npoly" by (simp add: word_sless_alt)
    with "1.prems" have k: "nat (sint i) < length vnper" by linarith
    have n: "nat (sint i + 1) = Suc (nat (sint i))" using "1.prems"(1) by linarith
    have "path_npoints vnper npoly (i + 1) (npoints + vnper ! nat (sint i)) =
        npoints + vnper ! nat (sint i) + sum_list (drop (nat (sint (i + 1))) vnper)"
      using True "1.prems" lt s by (intro "1.IH") simp_all
    also have "\<dots> = npoints + sum_list (drop (nat (sint i)) vnper)"
      using k by (simp add: s n add.assoc flip: Cons_nth_drop_Suc)
    finally show ?thesis using True by (subst path_npoints.simps) simp
  next
    case False
    with "1.prems" have "sint i = sint npoly" by (simp add: word_sless_alt)
    with "1.prems" have "drop (nat (sint i)) vnper = []" by simp
    with False show ?thesis by (subst path_npoints.simps) simp
  qed
qed

lemma path_npoints_total:
  assumes "0 \<le> sint npoly" "nat (sint npoly) = length vnper"
    and "- (2 ^ 31) \<le> sum_list (map sint vnper)" "sum_list (map sint vnper) < 2 ^ 31"
  shows "sint (path_npoints vnper npoly 0 0) = sum_list (map sint vnper)"
proof -
  have "path_npoints vnper npoly 0 0 = 0 + sum_list (drop (nat (sint (0::cint))) vnper)"
    using assms(1,2) by (intro path_npoints_drop) simp_all
  then have "path_npoints vnper npoly 0 0 = word_of_int (sum_list (map sint vnper))"
    by (simp add: sum_list_cint)
  then have "sint (path_npoints vnper npoly 0 0) = signed_take_bit 31 (sum_list (map sint vnper))"
    by (simp add: sint_sbintrunc')
  also have "\<dots> = sum_list (map sint vnper)"
    using assms(3,4) by (intro signed_take_bit_int_eq_self) auto
  finally show ?thesis .
qed

text \<open>
  C10. For a path call whose buffers hold what the call announces (\<open>nper\<close> has at least
  \<open>npoly\<close> entries, their sum \<open>S\<close> is non-negative and fits an \<open>int\<close>, and \<open>x\<close> and
  \<open>y\<close> have at least \<open>S\<close> entries), the \<open>Path\<close> draw call receives exactly the first
  \<open>S\<close> x-coordinates and the first \<open>S\<close> y-coordinates, in the order of the buffers.
\<close>

theorem path_copies_points:
  assumes "0 \<le> sint npoly" and "nat (sint npoly) \<le> length nper"
    and "S = sum_list (map sint (take (nat (sint npoly)) nper))"
    and "0 \<le> S" and "S < 2 ^ 31"
    and "nat S \<le> length x" and "nat S \<le> length y"
  shows "httpgd_path H x y npoly nper winding gc d =
           Inr (put H d (Path gc (take (nat S) x) (take (nat S) y) npoly
                  (take (nat (sint npoly)) nper) winding)) \<and>
         length (take (nat S) x) = nat S \<and> length (take (nat S) y) = nat S \<and>
         (\<forall>k < nat S. take (nat S) x ! k = x ! k \<and> take (nat S) y ! k = y ! k)"
proof -
  let ?v = "take (nat (sint npoly)) nper"
  have v: "vector_range nper npoly = Some ?v"
    using assms(1,2) by (simp add: vector_range_def)
  have len: "nat (sint npoly) = length ?v" using assms(2) by simp
  have n: "sint (path_npoints ?v npoly 0 0) = S"
    using assms(1,3,4,5) len by (simp add: path_npoints_total)
  have vx: "vector_range x (path_npoints ?v npoly 0 0) = Some (take (nat S) x)"
    using assms(4,6) n by (simp add: vector_range_def)
  have vy: "vector_range y (path_npoints ?v npoly 0 0) = Some (take (nat S) y)"
    using assms(4,7) n by (simp add: vector_range_def)
  show ?thesis using assms(6,7) by (simp add: httpgd_path_def v vx vy)
qed

text \<open>Two sub-polygons of 3 and 2 points: 5 coordinates are copied from each buffer.\<close>

theorem path_copies_points_witness:
  "0 \<le> sint (2 :: cint) \<and> nat (sint (2 :: cint)) \<le> length [3, 2, 9 :: cint] \<and>
   (5 :: int) = sum_list (map sint (take (nat (sint (2 :: cint))) [3, 2, 9 :: cint])) \<and>
   (0 :: int) \<le> 5 \<and> (5 :: int) < 2 ^ 31 \<and>
   nat 5 \<le> length [0, 1, 2, 3, 4, 5, 6 :: double] \<and>
   nat 5 \<le> length [10, 11, 12, 13, 14, 15 :: double] \<and>
   httpgd_path sample_class [0, 1, 2, 3, 4, 5, 6] [10, 11, 12, 13, 14, 15] 2 [3, 2, 9] True
     (sample_gc ''sans'') sample_device =
   Inr (put sample_class sample_device
          (Path (sample_gc ''sans'') [0, 1, 2, 3, 4] [10, 11, 12, 13, 14] 2 [3, 2] True))"
proof -
  have h: "0 \<le> sint (2 :: cint)" "nat (sint (2 :: cint)) \<le> length [3, 2, 9 :: cint]"
    "(5 :: int) = sum_list (map sint (take (nat (sint (2 :: cint))) [3, 2, 9 :: cint]))"
    "(0 :: int) \<le> 5" "(5 :: int) < 2 ^ 31"
    "nat 5 \<le> length [0, 1, 2, 3, 4, 5, 6 :: double]"
    "nat 5 \<le> length [10, 11, 12, 13, 14, 15 :: double]"
    by (simp_all add: numeral_2_eq_2)
  have t: "take (nat 5) [0, 1, 2, 3, 4, 5, 6 :: double] = [0, 1, 2, 3, 4]"
    "take (nat 5) [10, 11, 12, 13, 14, 15 :: double] = [10, 11, 12, 13, 14]"
    "take (nat (sint (2 :: cint))) [3, 2, 9 :: cint] = [3, 2]"
    by (simp_all add: numeral_2_eq_2 eval_nat_numeral)
  show ?thesis
    using h path_copies_points [OF h, of sample_class True "sample_gc ''sans''" sample_device]
    unfolding t by blast
qed

subsection \<open>Random tokens\<close>

text \<open>
  C4. \<open>httpgd_random_token_\<close> fails exactly when \<open>len\<close> is negative; for every other
  \<open>len\<close>, 0 included, it returns a token of \<open>len\<close> characters.
\<close>

theorem random_token_fails_iff_negative:
  "((\<exists>e. httpgd_random_token_' rnd len = Inl e) \<longleftrightarrow> len <s 0) \<and>
   (\<not> len <s 0 \<longrightarrow>
      (\<exists>s. httpgd_random_token_' rnd len = Inr s \<and> int (length s) = sint len))"
  by (simp add: httpgd_random_token_'_def random_token_def word_sless_alt)

text \<open>Lengths 16, -1 and 0.\<close>

theorem random_token_fails_iff_negative_witness:
  "\<not> (16 :: cint) <s 0 \<and>
   (\<exists>s. httpgd_random_token_' (\<lambda>i. CHR ''a'') 16 = Inr s \<and> int (length s) = sint (16 :: cint)) \<and>
   (- 1 :: cint) <s 0 \<and> (\<exists>e. httpgd_random_token_' (\<lambda>i. CHR ''a'') (- 1) = Inl e) \<and>
   \<not> (0 :: cint) <s 0 \<and> (\<exists>s. httpgd_random_token_' (\<lambda>i. CHR ''a'') 0 = Inr s \<and> length s = 0)"
proof -
  have a: "\<not> (16 :: cint) <s 0" "(- 1 :: cint) <s 0" "\<not> (0 :: cint) <s 0"
    by (simp_all add: word_sless_alt)
  show ?thesis
    using a random_token_fails_iff_negative [of "\<lambda>i. CHR ''a''" 16]
      random_token_fails_iff_negative [of "\<lambda>i. CHR ''a''" "- 1"]
      random_token_fails_iff_negative [of "\<lambda>i. CHR ''a''" 0]
    by simp
qed

subsection \<open>Starting a device\<close>

text \<open>What the sample table holds behind device numbers 1 to 4.\<close>

lemma sample_table_slots:
  "device_pointer sample_table 1 = None"
  "device_pointer sample_table 2 = Some (HttpgdPtr sample_device)"
  "device_pointer sample_table 3 = Some ForeignPtr"
  "device_pointer sample_table 4 = None"
  by (simp_all add: device_pointer_def GEgetDevice_def sample_table_def set_httpgddev_def
      makehttpgdDevice_def httpgd_driver_new_def getDev_def GEaddDevice2_def
      GEcreateDevDesc_def sample_env_def empty_table_def foreign_DevDesc_def
      sample_config_def)



text \<open>A successful start registers a descriptor whose device was started.\<close>

lemma makehttpgdDevice_success:
  assumes "fst (makehttpgdDevice H E t_params t_config tbl) = Inr u"
  shows "\<exists>dd. fst (snd (makehttpgdDevice H E t_params t_config tbl)) (free_slot E) =
             Some \<lparr> dev = Some dd \<rparr> \<and>
           deviceSpecific dd =
             Some (HttpgdPtr (start_server H (new_HttpgdDev H t_config t_params)))"
  using assms
  by (auto simp: makehttpgdDevice_def httpgd_driver_new_def getDev_def GEaddDevice2_def
      GEcreateDevDesc_def split: if_splits)

text \<open>
  C7. When \<open>httpgd_\<close> succeeds it returns \<open>true\<close>, and the device it has registered
  was built from a server configuration in which \<open>use_token\<close> holds if and only if the
  token string passed in is not empty, and which carries that token, host and port.
\<close>

theorem start_enables_token:
  assumes "fst (httpgd_' H E t_host t_port t_bg t_width t_height t_pointsize t_aliases
             t_recording t_cors t_token tbl) = Inr r"
  shows "r \<and>
    (\<exists>cfg prm dd.
       snd (httpgd_' H E t_host t_port t_bg t_width t_height t_pointsize t_aliases
              t_recording t_cors t_token tbl) (free_slot E) = Some \<lparr> dev = Some dd \<rparr> \<and>
       deviceSpecific dd = Some (HttpgdPtr (start_server H (new_HttpgdDev H cfg prm))) \<and>
       (use_token cfg \<longleftrightarrow> t_token \<noteq> []) \<and> token cfg = t_token \<and>
       host cfg = t_host \<and> port cfg = t_port)"
proof (cases "R_GE_str2col E t_bg")
  case None
  with assms show ?thesis by (simp add: httpgd_'_def Let_def)
next
  case (Some ibg)
  let ?prm = "\<lparr> bg = ibg, width = t_width, height = t_height, pointsize = t_pointsize,
                    aliases = t_aliases \<rparr>"
  let ?cfg = "\<lparr> host = t_host, port = t_port,
                 livehtml = read_txt E (get_wwwpath E ''index.html''), cors = t_cors,
                 use_token = (length t_token \<noteq> 0), token = t_token,
                 recording = t_recording \<rparr>"
  obtain res tbl' acts where m: "makehttpgdDevice H E ?prm ?cfg tbl = (res, tbl', acts)"
    by (cases "makehttpgdDevice H E ?prm ?cfg tbl")
  from assms Some m obtain u where ru: "res = Inr u" and r: "r"
    by (cases res) (simp_all add: httpgd_'_def Let_def)
  from m ru have s: "snd (httpgd_' H E t_host t_port t_bg t_width t_height t_pointsize
      t_aliases t_recording t_cors t_token tbl) = tbl'"
    using Some by (simp add: httpgd_'_def Let_def)
  from m ru have "fst (makehttpgdDevice H E ?prm ?cfg tbl) = Inr u" by simp
  from makehttpgdDevice_success [OF this] m
  obtain dd where "tbl' (free_slot E) = Some \<lparr> dev = Some dd \<rparr>"
    and "deviceSpecific dd = Some (HttpgdPtr (start_server H (new_HttpgdDev H ?cfg ?prm)))"
    by auto
  then show ?thesis using r s
    by (intro conjI exI [of _ ?cfg] exI [of _ ?prm] exI [of _ dd]) simp_all
qed

text \<open>A start with token \<open>abc123\<close> and a start with the empty token.\<close>

theorem start_enables_token_witness:
  "fst (httpgd_' sample_class (sample_env True False) ''127.0.0.1'' 8080 ''white'' 720 576 12
          (RList []) True False ''abc123'' empty_table) = Inr True \<and>
   (\<exists>cfg prm dd.
      snd (httpgd_' sample_class (sample_env True False) ''127.0.0.1'' 8080 ''white'' 720 576
             12 (RList []) True False ''abc123'' empty_table)
        (free_slot (sample_env True False)) = Some \<lparr> dev = Some dd \<rparr> \<and>
      deviceSpecific dd =
        Some (HttpgdPtr (start_server sample_class (new_HttpgdDev sample_class cfg prm))) \<and>
      use_token cfg \<and> token cfg = ''abc123'') \<and>
   fst (httpgd_' sample_class (sample_env True False) ''127.0.0.1'' 8080 ''white'' 720 576 12
          (RList []) True False [] empty_table) = Inr True \<and>
   (\<exists>cfg prm dd.
      snd (httpgd_' sample_class (sample_env True False) ''127.0.0.1'' 8080 ''white'' 720 576
             12 (RList []) True False [] empty_table)
        (free_slot (sample_env True False)) = Some \<lparr> dev = Some dd \<rparr> \<and>
      deviceSpecific dd =
        Some (HttpgdPtr (start_server sample_class (new_HttpgdDev sample_class cfg prm))) \<and>
      \<not> use_token cfg \<and> token cfg = [])"
proof -
  have a: "fst (httpgd_' sample_class (sample_env True False) ''127.0.0.1'' 8080 ''white'' 720
      576 12 (RList []) True False ''abc123'' empty_table) = Inr True"
    by (simp add: httpgd_'_def makehttpgdDevice_def httpgd_driver_new_def getDev_def
        sample_env_def Let_def)
  have b: "fst (httpgd_' sample_class (sample_env True False) ''127.0.0.1'' 8080 ''white'' 720
      576 12 (RList []) True False [] empty_table) = Inr True"
    by (simp add: httpgd_'_def makehttpgdDevice_def httpgd_driver_new_def getDev_def
        sample_env_def Let_def)
  have n: "(''abc123'' \<noteq> []) = True" "(([] :: string) \<noteq> []) = False" by simp_all
  show ?thesis
    using a b start_enables_token [OF a] start_enables_token [OF b]
    unfolding n by blast
qed

subsection \<open>In-process operations\<close>

text \<open>\<open>validate_httpgddev\<close> in terms of the range check and the pointer found.\<close>

lemma validate_out_of_range:
  "devnum <s 1 \<or> 64 <s devnum \<Longrightarrow>
   validate_httpgddev tbl devnum = Inl (Rcpp_stop ''invalid graphical device number'')"
  by (simp add: validate_httpgddev_def)

lemma validate_device_pointer:
  "\<not> devnum <s 1 \<Longrightarrow> \<not> 64 <s devnum \<Longrightarrow>
   validate_httpgddev tbl devnum =
     (case device_pointer tbl devnum of
        None \<Rightarrow> Inl (Rcpp_stop ''invalid device'')
      | Some p \<Rightarrow> Inr p)"
  by (simp add: validate_httpgddev_def device_pointer_def split: option.splits)

text \<open>
  C5 as stated fails: a device number in range whose slot holds a live device of another
  kind passes \<open>validate_httpgddev\<close> (only null pointers are refused), and the
  operations then use its private data as an \<open>HttpgdDev\<close>; no failure is reported.
\<close>

theorem foreign_device_counterexample:
  "\<not> (3 :: cint) <s 1 \<and> \<not> 64 <s (3 :: cint) \<and>
   device_pointer sample_table 3 = Some ForeignPtr \<and>
   validate_httpgddev sample_table 3 = Inr ForeignPtr \<and>
   httpgd_state_' sample_class sample_table 3 = Inl Undefined_behaviour \<and>
   httpgd_svg_' sample_class sample_table 3 0 720 576 = Inl Undefined_behaviour \<and>
   httpgd_remove_' sample_class sample_table 3 0 = (Inl Undefined_behaviour, sample_table) \<and>
   httpgd_clear_' sample_class sample_table 3 = (Inl Undefined_behaviour, sample_table)"
proof -
  have r: "\<not> (3 :: cint) <s 1" "\<not> 64 <s (3 :: cint)"
    by (simp_all add: word_sless_alt)
  then have v: "validate_httpgddev sample_table 3 = Inr ForeignPtr"
    by (simp add: validate_device_pointer sample_table_slots)
  show ?thesis
    using r
    by (simp add: v sample_table_slots httpgd_state_'_def httpgd_svg_'_def
        httpgd_remove_'_def httpgd_clear_'_def)
qed

text \<open>
  C5, amended. For a device number below 1 or above 64 every in-process operation (state
  query, SVG render, page removal, clear) raises "invalid graphical device number"; for
  a number in range whose slot, descriptor or device-specific pointer is null, every
  operation raises "invalid device"; in both cases the device table is unchanged. For a
  number that refers to an httpgd device, page removal returns the boolean that the
  store's removal returns.
\<close>

theorem invalid_device_reported:
  "(devnum <s 1 \<or> 64 <s devnum \<longrightarrow>
      httpgd_state_' H tbl devnum = Inl (Rcpp_stop ''invalid graphical device number'') \<and>
      httpgd_svg_' H tbl devnum page w h = Inl (Rcpp_stop ''invalid graphical device number'') \<and>
      httpgd_remove_' H tbl devnum page =
        (Inl (Rcpp_stop ''invalid graphical device number''), tbl) \<and>
      httpgd_clear_' H tbl devnum =
        (Inl (Rcpp_stop ''invalid graphical device number''), tbl)) \<and>
   (\<not> devnum <s 1 \<and> \<not> 64 <s devnum \<and> device_pointer tbl devnum = None \<longrightarrow>
      httpgd_state_' H tbl devnum = Inl (Rcpp_stop ''invalid device'') \<and>
      httpgd_svg_' H tbl devnum page w h = Inl (Rcpp_stop ''invalid device'') \<and>
      httpgd_remove_' H tbl devnum page = (Inl (Rcpp_stop ''invalid device''), tbl) \<and>
      httpgd_clear_' H tbl devnum = (Inl (Rcpp_stop ''invalid device''), tbl)) \<and>
   (\<not> devnum <s 1 \<and> \<not> 64 <s devnum \<and> device_pointer tbl devnum = Some (HttpgdPtr d) \<longrightarrow>
      fst (httpgd_remove_' H tbl devnum page) = Inr (fst (store_remove H d page)))"
proof (intro conjI impI)
  assume "devnum <s 1 \<or> 64 <s devnum"
  then have v: "validate_httpgddev tbl devnum =
      Inl (Rcpp_stop ''invalid graphical device number'')"
    by (rule validate_out_of_range)
  show "httpgd_state_' H tbl devnum = Inl (Rcpp_stop ''invalid graphical device number'')"
    by (simp add: httpgd_state_'_def v)
  show "httpgd_svg_' H tbl devnum page w h =
      Inl (Rcpp_stop ''invalid graphical device number'')"
    by (simp add: httpgd_svg_'_def v)
  show "httpgd_remove_' H tbl devnum page =
      (Inl (Rcpp_stop ''invalid graphical device number''), tbl)"
    by (simp add: httpgd_remove_'_def v)
  show "httpgd_clear_' H tbl devnum =
      (Inl (Rcpp_stop ''invalid graphical device number''), tbl)"
    by (simp add: httpgd_clear_'_def v)
next
  assume "\<not> devnum <s 1 \<and> \<not> 64 <s devnum \<and> device_pointer tbl devnum = None"
  then have v: "validate_httpgddev tbl devnum = Inl (Rcpp_stop ''invalid device'')"
    by (simp add: validate_device_pointer)
  show "httpgd_state_' H tbl devnum = Inl (Rcpp_stop ''invalid device'')"
    by (simp add: httpgd_state_'_def v)
  show "httpgd_svg_' H tbl devnum page w h = Inl (Rcpp_stop ''invalid device'')"
    by (simp add: httpgd_svg_'_def v)
  show "httpgd_remove_' H tbl devnum page = (Inl (Rcpp_stop ''invalid device''), tbl)"
    by (simp add: httpgd_remove_'_def v)
  show "httpgd_clear_' H tbl devnum = (Inl (Rcpp_stop ''invalid device''), tbl)"
    by (simp add: httpgd_clear_'_def v)
next
  assume "\<not> devnum <s 1 \<and> \<not> 64 <s devnum \<and> device_pointer tbl devnum = Some (HttpgdPtr d)"
  then have v: "validate_httpgddev tbl devnum = Inr (HttpgdPtr d)"
    by (simp add: validate_device_pointer)
  show "fst (httpgd_remove_' H tbl devnum page) = Inr (fst (store_remove H d page))"
    by (simp add: httpgd_remove_'_def v split: prod.splits)
qed

text \<open>Device numbers 0 (out of range), 4 (empty slot) and 2 (the httpgd device).\<close>

theorem invalid_device_reported_witness:
  "((0 :: cint) <s 1 \<or> 64 <s (0 :: cint)) \<and>
   httpgd_state_' sample_class sample_table 0 =
     Inl (Rcpp_stop ''invalid graphical device number'') \<and>
   httpgd_svg_' sample_class sample_table 0 0 720 576 =
     Inl (Rcpp_stop ''invalid graphical device number'') \<and>
   httpgd_remove_' sample_class sample_table 0 0 =
     (Inl (Rcpp_stop ''invalid graphical device number''), sample_table) \<and>
   httpgd_clear_' sample_class sample_table 0 =
     (Inl (Rcpp_stop ''invalid graphical device number''), sample_table) \<and>
   \<not> (4 :: cint) <s 1 \<and> \<not> 64 <s (4 :: cint) \<and> device_pointer sample_table 4 = None \<and>
   httpgd_state_' sample_class sample_table 4 = Inl (Rcpp_stop ''invalid device'') \<and>
   httpgd_svg_' sample_class sample_table 4 0 720 576 = Inl (Rcpp_stop ''invalid device'') \<and>
   httpgd_remove_' sample_class sample_table 4 0 =
     (Inl (Rcpp_stop ''invalid device''), sample_table) \<and>
   httpgd_clear_' sample_class sample_table 4 =
     (Inl (Rcpp_stop ''invalid device''), sample_table) \<and>
   \<not> (2 :: cint) <s 1 \<and> \<not> 64 <s (2 :: cint) \<and>
   device_pointer sample_table 2 = Some (HttpgdPtr sample_device) \<and>
   fst (httpgd_remove_' sample_class sample_table 2 0) = Inr True"
proof -
  have r: "(0 :: cint) <s 1 \<or> 64 <s (0 :: cint)"
    "\<not> (4 :: cint) <s 1" "\<not> 64 <s (4 :: cint)"
    "\<not> (2 :: cint) <s 1" "\<not> 64 <s (2 :: cint)"
    by (simp_all add: word_sless_alt)
  have b: "fst (store_remove sample_class sample_device 0)"
    by (simp add: sample_class_def sample_device_def)
  show ?thesis
    using r b sample_table_slots
      invalid_device_reported [of 0 sample_class sample_table 0 720 576]
      invalid_device_reported [of 4 sample_class sample_table 0 720 576]
      invalid_device_reported [of 2 sample_class sample_table 0 720 576 sample_device]
    by simp
qed

text \<open>
  C6 as stated fails: the list returned by the state query has no field named
  \<open>page_count\<close>; the page count is returned under the name \<open>hsize\<close>.
\<close>

theorem state_field_names_counterexample:
  "httpgd_state_' sample_class sample_table 2 =
     Inr [(''host'', RString ''127.0.0.1''), (''port'', RNum 8080),
          (''token'', RString ''abc123''), (''hsize'', RNum 1), (''upid'', RNum 3)] \<and>
   ''page_count'' \<notin> set (field_names (httpgd_state_' sample_class sample_table 2))"
proof -
  have r: "\<not> (2 :: cint) <s 1" "\<not> 64 <s (2 :: cint)"
    by (simp_all add: word_sless_alt)
  then have v: "validate_httpgddev sample_table 2 = Inr (HttpgdPtr sample_device)"
    by (simp add: validate_device_pointer sample_table_slots)
  have "httpgd_state_' sample_class sample_table 2 =
     Inr [(''host'', RString ''127.0.0.1''), (''port'', RNum 8080),
          (''token'', RString ''abc123''), (''hsize'', RNum 1), (''upid'', RNum 3)]"
    by (simp add: httpgd_state_'_def v sample_class_def sample_device_def sample_config_def)
  then show ?thesis by (simp add: field_names_def)
qed

text \<open>
  C6, amended. For every device number that refers to an httpgd device, the state query
  returns exactly five fields, named host, port, token, hsize and upid in this order:
  host and token are those of the device's server configuration, port is what the
  server reports, hsize is the page count of the history store and upid its update
  identifier.
\<close>

theorem state_fields:
  assumes "\<not> devnum <s 1" and "\<not> 64 <s devnum"
    and "device_pointer tbl devnum = Some (HttpgdPtr d)"
  shows "httpgd_state_' H tbl devnum =
     Inr [(''host'', RString (host (get_server_config H d))),
          (''port'', RNum (server_await_port H d)),
          (''token'', RString (token (get_server_config H d))),
          (''hsize'', RNum (store_get_page_count H d)),
          (''upid'', RNum (store_get_upid H d))]"
  using assms by (simp add: httpgd_state_'_def validate_device_pointer Let_def)

text \<open>The state of the httpgd device of the sample table.\<close>

theorem state_fields_witness:
  "\<not> (2 :: cint) <s 1 \<and> \<not> 64 <s (2 :: cint) \<and>
   device_pointer sample_table 2 = Some (HttpgdPtr sample_device) \<and>
   httpgd_state_' sample_class sample_table 2 =
     Inr [(''host'', RString ''127.0.0.1''), (''port'', RNum 8080),
          (''token'', RString ''abc123''), (''hsize'', RNum 1), (''upid'', RNum 3)]"
proof -
  have r: "\<not> (2 :: cint) <s 1" "\<not> 64 <s (2 :: cint)"
    by (simp_all add: word_sless_alt)
  have f: "host (get_server_config sample_class sample_device) = ''127.0.0.1''"
    "server_await_port sample_class sample_device = 8080"
    "token (get_server_config sample_class sample_device) = ''abc123''"
    "store_get_page_count sample_class sample_device = 1"
    "store_get_upid sample_class sample_device = 3"
    by (simp_all add: sample_class_def sample_device_def sample_config_def)
  show ?thesis
    using r sample_table_slots(2)
      state_fields [OF r sample_table_slots(2), of sample_class]
    unfolding f by blast
qed

end
